theory Spec2Isabelle
  imports Main
begin

section \<open>JavaScript values seen by the plugin\<close>

text \<open>
  The plugin (src/opencode-plugin/src/index.ts) and the adapter receive values typed
  \<open>unknown\<close> from the host and decoded JSON from the worker service. TypeScript types are
  erased when the code runs, so these values are modelled as they exist at run time:
  a tree of undefined, null, booleans, numbers, strings, arrays and plain objects.
  An object is its list of own properties in insertion order. Numbers are integers
  (fractions, NaN and the infinities are not represented); values with cycles, functions,
  symbols and getters are not represented either.

  A JavaScript string is its sequence of UTF-16 code units, each a number below 65536.
  \<open>ustr\<close> gives the code units of a text written with 8-bit characters, which is how the
  string literals of the source are written here; \<open>JStr\<close> is the string value of such a text.
  Property names, request paths and the messages of errors are kept as 8-bit text.
\<close>

type_synonym code_unit = nat

type_synonym jstring = "code_unit list"

definition ustr :: "string \<Rightarrow> jstring" where
  "ustr s = map of_char s"

datatype jsval =
    JUndefined
  | JNull
  | JBool bool
  | JNum int
  | JString jstring
  | JArr "jsval list"
  | JObj "(string \<times> jsval) list"

abbreviation JStr :: "string \<Rightarrow> jsval" where
  "JStr s \<equiv> JString (ustr s)"

text \<open>What a \<open>throw\<close> carries. \<open>message\<close> is what the catch blocks of the query tools read
  with \<open>error instanceof Error ? error.message : String(error)\<close>. A \<open>SystemError\<close> is what
  \<open>process.cwd()\<close> throws when the working directory no longer exists.\<close>

datatype thrown =
    TypeError string
  | SyntaxError string
  | FetchFailed string
  | TimeoutError
  | SystemError string

fun message :: "thrown \<Rightarrow> string" where
  "message (TypeError m) = m"
| "message (SyntaxError m) = m"
| "message (FetchFailed m) = m"
| "message TimeoutError = ''The operation was aborted due to timeout''"
| "message (SystemError m) = m"

text \<open>\<open>try { body } catch { handler }\<close>: a completion is \<open>Inl\<close> of what was thrown or
  \<open>Inr\<close> of the value.\<close>

definition try_catch :: "thrown + 'a \<Rightarrow> (thrown \<Rightarrow> thrown + 'a) \<Rightarrow> thrown + 'a" where
  "try_catch body handler = (case body of Inl e \<Rightarrow> handler e | Inr v \<Rightarrow> Inr v)"

definition nullish :: "jsval \<Rightarrow> bool" where
  "nullish v = (v = JUndefined \<or> v = JNull)"

text \<open>\<open>a ?? b\<close>\<close>

definition coalesce :: "jsval \<Rightarrow> jsval \<Rightarrow> jsval" where
  "coalesce a b = (if nullish a then b else a)"

text \<open>Reading an own property of an object; a missing property reads as undefined.\<close>

fun obj_get :: "(string \<times> jsval) list \<Rightarrow> string \<Rightarrow> jsval" where
  "obj_get [] k = JUndefined"
| "obj_get ((k', v) # fs) k = (if k' = k then v else obj_get fs k)"

text \<open>Assigning a property: an existing property keeps its place, a new one goes last.\<close>

fun obj_set :: "(string \<times> 'v) list \<Rightarrow> string \<Rightarrow> 'v \<Rightarrow> (string \<times> 'v) list" where
  "obj_set [] k v = [(k, v)]"
| "obj_set ((k', v') # fs) k v = (if k' = k then (k, v) # fs else (k', v') # obj_set fs k v)"

text \<open>
  \<open>v.k\<close>: a TypeError on undefined and null. Booleans, numbers, strings and arrays have
  none of the property names that the plugin and the adapter read (content, name, tool,
  input, messages, role, sessionId, cwd, directory, prompt, toolName, toolInput,
  toolOutput, toolResponse, sessionDbId), so the read gives undefined there.
\<close>

fun js_prop :: "jsval \<Rightarrow> string \<Rightarrow> thrown + jsval" where
  "js_prop JUndefined k = Inl (TypeError (''Cannot read properties of undefined (reading '' @ k @ '')''))"
| "js_prop JNull k = Inl (TypeError (''Cannot read properties of null (reading '' @ k @ '')''))"
| "js_prop (JObj fs) k = Inr (obj_get fs k)"
| "js_prop v k = Inr JUndefined"

text \<open>\<open>v?.k\<close>\<close>

definition opt_prop :: "jsval \<Rightarrow> string \<Rightarrow> jsval" where
  "opt_prop v k = (case v of JUndefined \<Rightarrow> JUndefined | JNull \<Rightarrow> JUndefined
     | JObj fs \<Rightarrow> obj_get fs k | _ \<Rightarrow> JUndefined)"

subsection \<open>String conversion\<close>

definition digit_char :: "nat \<Rightarrow> char" where
  "digit_char d = char_of (48 + d)"

fun string_of_nat :: "nat \<Rightarrow> string" where
  "string_of_nat n = (if n < 10 then [digit_char n] else string_of_nat (n div 10) @ [digit_char (n mod 10)])"

definition string_of_int :: "int \<Rightarrow> string" where
  "string_of_int i = (if i < 0 then CHR ''-'' # string_of_nat (nat (- i)) else string_of_nat (nat i))"

fun join_comma :: "jstring list \<Rightarrow> jstring" where
  "join_comma [] = []"
| "join_comma [s] = s"
| "join_comma (s # t # ss) = s @ ustr '','' @ join_comma (t # ss)"

text \<open>\<open>String(v)\<close>, also the conversion applied by \<open>+\<close> with a string operand, by a template
  literal and by \<open>encodeURIComponent\<close>. An array joins its elements with commas, printing
  undefined and null elements as the empty string. A number prints its decimal digits, as
  JavaScript does for integers below \<open>10\<^sup>2\<^sup>1\<close>.\<close>

fun js_String :: "jsval \<Rightarrow> jstring" where
  "js_String JUndefined = ustr ''undefined''"
| "js_String JNull = ustr ''null''"
| "js_String (JBool b) = (if b then ustr ''true'' else ustr ''false'')"
| "js_String (JNum i) = ustr (string_of_int i)"
| "js_String (JString s) = s"
| "js_String (JArr xs) =
     join_comma (map (\<lambda>x. if x = JUndefined \<or> x = JNull then [] else js_String x) xs)"
| "js_String (JObj fs) = ustr ''[object Object]''"

text \<open>
  \<open>s.trim()\<close> removes white space and line terminators from both ends. These are the code
  units that ECMAScript calls WhiteSpace (U+0009 tab, U+000B vertical tab, U+000C form
  feed, U+FEFF, and the space separators U+0020, U+00A0, U+1680, U+2000 to U+200A,
  U+202F, U+205F, U+3000) and LineTerminator (U+000A, U+000D, U+2028, U+2029). All of
  them are single code units.
\<close>

definition js_whitespace :: "code_unit \<Rightarrow> bool" where
  "js_whitespace u =
     (u \<in> set [0x0009, 0x000A, 0x000B, 0x000C, 0x000D, 0x0020, 0x00A0, 0x1680,
                0x2028, 0x2029, 0x202F, 0x205F, 0x3000, 0xFEFF]
      \<or> (0x2000 \<le> u \<and> u \<le> 0x200A))"

definition js_trim :: "jstring \<Rightarrow> jstring" where
  "js_trim s = rev (dropWhile js_whitespace (rev (dropWhile js_whitespace s)))"

section \<open>The worker service as seen through fetch\<close>

text \<open>
  A response carries its status and what its body readers settle with: \<open>text_body\<close> is the
  completion of \<open>response.text()\<close> and \<open>json_body\<close> that of \<open>response.json()\<close> (a SyntaxError
  on a body that is not JSON). A handler reads at most one of the two.
\<close>

record response =
  status :: nat
  text_body :: "thrown + jstring"
  json_body :: "thrown + jsval"

text \<open>\<open>response.ok\<close>\<close>

definition response_ok :: "response \<Rightarrow> bool" where
  "response_ok r = (200 \<le> status r \<and> status r \<le> 299)"

text \<open>How one call of \<open>fetch\<close> settles: it rejects on a network error or when its abort
  signal times out, and resolves with a response otherwise (whatever the status). Every
  call is taken to settle.\<close>

datatype fetch_outcome =
    NetworkError string
  | TimedOut
  | Responded response

fun await_fetch :: "fetch_outcome \<Rightarrow> thrown + response" where
  "await_fetch (NetworkError m) = Inl (FetchFailed m)"
| "await_fetch TimedOut = Inl TimeoutError"
| "await_fetch (Responded r) = Inr r"

datatype http_method = GET | POST

text \<open>An outbound request: the URL is \<open>WORKER_BASE_URL\<close> followed by \<open>path\<close> and, when
  \<open>query\<close> is not empty, the encoded query string; \<open>body\<close> is the value handed to
  \<open>JSON.stringify\<close>; \<open>timeout_ms\<close> is the argument of \<open>AbortSignal.timeout\<close>.\<close>

record request =
  meth :: http_method
  path :: string
  query :: "(string \<times> jstring) list"
  headers :: "(string \<times> string) list"
  body :: "jsval option"
  timeout_ms :: "nat option"

definition json_headers :: "(string \<times> string) list" where
  "json_headers = [(''Content-Type'', ''application/json'')]"

definition get_request :: "string \<Rightarrow> (string \<times> jstring) list \<Rightarrow> request" where
  "get_request p q = \<lparr>meth = GET, path = p, query = q, headers = [], body = None, timeout_ms = None\<rparr>"

definition post_json :: "string \<Rightarrow> jsval \<Rightarrow> request" where
  "post_json p b = \<lparr>meth = POST, path = p, query = [], headers = json_headers, body = Some b, timeout_ms = None\<rparr>"

subsection \<open>ensureWorker\<close>

definition readiness_request :: request where
  "readiness_request = (get_request ''/api/readiness'' []) \<lparr>timeout_ms := Some 5000\<rparr>"

text \<open>The requests \<open>ensureWorker\<close> issues, and how its promise settles given how its fetch
  settles: the body of the \<open>try\<close> returns \<open>response.ok\<close>, the \<open>catch\<close> returns false.\<close>

definition ensureWorker_requests :: "request list" where
  "ensureWorker_requests = [readiness_request]"

definition ensureWorker :: "fetch_outcome \<Rightarrow> thrown + bool" where
  "ensureWorker probe =
     try_catch
       (case await_fetch probe of Inl e \<Rightarrow> Inl e | Inr r \<Rightarrow> Inr (response_ok r))
       (\<lambda>e. Inr False)"

section \<open>The plugin: src/opencode-plugin/src/index.ts\<close>

text \<open>Sequencing of completions: the second step runs only when the first did not throw.\<close>

definition and_then :: "thrown + 'a \<Rightarrow> ('a \<Rightarrow> thrown + 'b) \<Rightarrow> thrown + 'b" where
  "and_then c f = (case c of Inl e \<Rightarrow> Inl e | Inr v \<Rightarrow> f v)"

text \<open>What the plugin closure captures when it is constructed: the generated session id
  and the host's \<open>project\<close> and \<open>directory\<close>.\<close>

record plugin_ctx =
  sessionId :: string
  project :: jsval
  directory :: jsval

text \<open>The two mutable variables of the closure.\<close>

record session =
  sessionInitialized :: bool
  sessionDbId :: jsval

definition initial_session :: session where
  "initial_session = \<lparr>sessionInitialized = False, sessionDbId = JNull\<rparr>"

text \<open>
  What one call of a hook or of a tool's \<open>execute\<close> leaves behind: the closure's variables,
  the requests issued in order, the lines written with \<open>console.error\<close>, how the returned
  promise settles (\<open>Inl\<close> rejects, \<open>Inr\<close> resolves), and the hook's \<open>output\<close> object for the one
  hook that assigns to it. Handlers run one after the other, each to its end.
\<close>

record outcome =
  session_after :: session
  sent :: "request list"
  logged :: "(string \<times> thrown) list"
  settled :: "thrown + jsval"
  output_after :: "(string \<times> jsval) list option"

definition resolved :: "session \<Rightarrow> request list \<Rightarrow> jsval \<Rightarrow> outcome" where
  "resolved st rs v =
     \<lparr>session_after = st, sent = rs, logged = [], settled = Inr v, output_after = None\<rparr>"

definition rejected :: "session \<Rightarrow> request list \<Rightarrow> thrown \<Rightarrow> outcome" where
  "rejected st rs e =
     \<lparr>session_after = st, sent = rs, logged = [], settled = Inl e, output_after = None\<rparr>"

text \<open>A hook's \<open>catch\<close> block: it logs and the hook returns undefined.\<close>

definition caught :: "session \<Rightarrow> request list \<Rightarrow> string \<Rightarrow> thrown \<Rightarrow> outcome" where
  "caught st rs label e =
     \<lparr>session_after = st, sent = rs, logged = [(label, e)], settled = Inr JUndefined,
      output_after = None\<rparr>"

subsection \<open>chat.message\<close>

text \<open>\<open>typeof v === 'object'\<close>\<close>

fun typeof_object :: "jsval \<Rightarrow> bool" where
  "typeof_object JNull = True"
| "typeof_object (JArr xs) = True"
| "typeof_object (JObj fs) = True"
| "typeof_object v = False"

definition chat_prompt :: "jsval \<Rightarrow> thrown + jsval" where
  "chat_prompt input =
     (if typeof_object input \<and> input \<noteq> JNull
      then and_then (js_prop input ''content'') (\<lambda>c. Inr (coalesce c (JStr '''')))
      else Inr (JStr ''''))"

definition project_name :: "plugin_ctx \<Rightarrow> jsval" where
  "project_name ctx = coalesce (opt_prop (project ctx) ''name'') (JStr ''unknown'')"

definition init_request :: "plugin_ctx \<Rightarrow> jsval \<Rightarrow> request" where
  "init_request ctx prompt =
     post_json ''/api/sessions/init''
       (JObj [(''contentSessionId'', JStr (sessionId ctx)),
              (''project'', project_name ctx),
              (''prompt'', prompt)])"

text \<open>The \<open>try\<close> block of chat.message: the requests it issues and its completion, which
  is the closure's variables when it does not throw.\<close>

definition chat_message_try ::
  "plugin_ctx \<Rightarrow> session \<Rightarrow> jsval \<Rightarrow> fetch_outcome \<Rightarrow> request list \<times> (thrown + session)" where
  "chat_message_try ctx st input reply =
     (case chat_prompt input of
        Inl e \<Rightarrow> ([], Inl e)
      | Inr prompt \<Rightarrow>
          ([init_request ctx prompt],
           and_then (await_fetch reply) (\<lambda>r.
             if response_ok r
             then and_then (json_body r) (\<lambda>result.
                  and_then (js_prop result ''sessionDbId'') (\<lambda>v.
                    Inr (st\<lparr>sessionDbId := coalesce v JNull, sessionInitialized := True\<rparr>)))
             else Inr st)))"

definition chat_message ::
  "plugin_ctx \<Rightarrow> session \<Rightarrow> jsval \<Rightarrow> fetch_outcome \<Rightarrow> fetch_outcome \<Rightarrow> outcome" where
  "chat_message ctx st input probe reply =
     (case ensureWorker probe of
        Inl e \<Rightarrow> rejected st ensureWorker_requests e
      | Inr live \<Rightarrow>
          if \<not> live then resolved st ensureWorker_requests JUndefined
          else if sessionInitialized st then resolved st ensureWorker_requests JUndefined
          else (case chat_message_try ctx st input reply of
                  (rs, Inl e) \<Rightarrow>
                    caught st (ensureWorker_requests @ rs) ''claude-mem: session init failed'' e
                | (rs, Inr st') \<Rightarrow> resolved st' (ensureWorker_requests @ rs) JUndefined))"

subsection \<open>tool.execute.after\<close>

definition observation_request :: "plugin_ctx \<Rightarrow> jsval \<Rightarrow> jsval \<Rightarrow> jsval \<Rightarrow> request" where
  "observation_request ctx tool_name tool_input toolOutput =
     post_json ''/api/sessions/observations''
       (JObj [(''contentSessionId'', JStr (sessionId ctx)),
              (''tool_name'', tool_name),
              (''tool_input'', tool_input),
              (''tool_response'', toolOutput),
              (''cwd'', directory ctx)])"

text \<open>The response of the observation call is not looked at: only a rejected fetch
  throws.\<close>

definition tool_execute_after_try ::
  "plugin_ctx \<Rightarrow> jsval \<Rightarrow> jsval \<Rightarrow> fetch_outcome \<Rightarrow> request list \<times> (thrown + unit)" where
  "tool_execute_after_try ctx input toolOutput reply =
     (case js_prop input ''tool'' of
        Inl e \<Rightarrow> ([], Inl e)
      | Inr tool \<Rightarrow>
          ([observation_request ctx (coalesce (opt_prop tool ''name'') (JStr ''unknown''))
              (opt_prop tool ''input'') toolOutput],
           and_then (await_fetch reply) (\<lambda>r. Inr ())))"

definition tool_execute_after ::
  "plugin_ctx \<Rightarrow> session \<Rightarrow> jsval \<Rightarrow> jsval \<Rightarrow> fetch_outcome \<Rightarrow> fetch_outcome \<Rightarrow> outcome" where
  "tool_execute_after ctx st input toolOutput probe reply =
     (case ensureWorker probe of
        Inl e \<Rightarrow> rejected st ensureWorker_requests e
      | Inr live \<Rightarrow>
          if \<not> live then resolved st ensureWorker_requests JUndefined
          else if \<not> sessionInitialized st then resolved st ensureWorker_requests JUndefined
          else (case tool_execute_after_try ctx input toolOutput reply of
                  (rs, Inl e) \<Rightarrow>
                    caught st (ensureWorker_requests @ rs) ''claude-mem: observation capture failed'' e
                | (rs, Inr u) \<Rightarrow> resolved st (ensureWorker_requests @ rs) JUndefined))"

subsection \<open>experimental.chat.system.transform\<close>

definition inject_request :: "plugin_ctx \<Rightarrow> request" where
  "inject_request ctx = get_request ''/api/context/inject'' [(''projects'', js_String (project_name ctx))]"

text \<open>The hook's \<open>output\<close> is an object of the host, given by its properties. The \<open>try\<close>
  block completes with the properties after the hook: assigned when the response is ok and
  its text is not empty after trimming, untouched otherwise.\<close>

definition system_transform_try ::
  "plugin_ctx \<Rightarrow> (string \<times> jsval) list \<Rightarrow> fetch_outcome \<Rightarrow>
     request list \<times> (thrown + (string \<times> jsval) list)" where
  "system_transform_try ctx output reply =
     ([inject_request ctx],
      and_then (await_fetch reply) (\<lambda>r.
        if response_ok r
        then and_then (text_body r) (\<lambda>context.
               if js_trim context \<noteq> []
               then Inr (obj_set output ''system''
                      (JString (js_String (coalesce (obj_get output ''system'') (JStr ''''))
                                @ ustr ''\<newline>\<newline>'' @ context)))
               else Inr output)
        else Inr output))"

definition system_transform ::
  "plugin_ctx \<Rightarrow> session \<Rightarrow> (string \<times> jsval) list \<Rightarrow> fetch_outcome \<Rightarrow> fetch_outcome \<Rightarrow> outcome" where
  "system_transform ctx st output probe reply =
     (case ensureWorker probe of
        Inl e \<Rightarrow> (rejected st ensureWorker_requests e) \<lparr>output_after := Some output\<rparr>
      | Inr live \<Rightarrow>
          if \<not> live then (resolved st ensureWorker_requests JUndefined) \<lparr>output_after := Some output\<rparr>
          else (case system_transform_try ctx output reply of
                  (rs, Inl e) \<Rightarrow>
                    (caught st (ensureWorker_requests @ rs) ''claude-mem: context injection failed'' e)
                      \<lparr>output_after := Some output\<rparr>
                | (rs, Inr output') \<Rightarrow>
                    (resolved st (ensureWorker_requests @ rs) JUndefined)
                      \<lparr>output_after := Some output'\<rparr>))"

subsection \<open>experimental.session.compacting\<close>

text \<open>\<open>messages.filter((m) => m.role === 'assistant')\<close>: the callback runs on the elements in
  order and reading \<open>role\<close> throws on an undefined or null element. A value that is not an
  array has no \<open>filter\<close> method.\<close>

fun filter_assistant :: "jsval list \<Rightarrow> thrown + jsval list" where
  "filter_assistant [] = Inr []"
| "filter_assistant (m # ms) =
     and_then (js_prop m ''role'') (\<lambda>role.
     and_then (filter_assistant ms) (\<lambda>rest.
       Inr (if role = JStr ''assistant'' then m # rest else rest)))"

definition messages_filter_assistant :: "jsval \<Rightarrow> thrown + jsval list" where
  "messages_filter_assistant messages =
     (case messages of
        JArr ms \<Rightarrow> filter_assistant ms
      | _ \<Rightarrow> Inl (TypeError ''messages.filter is not a function''))"

text \<open>\<open>xs.pop()\<close>: the last element, undefined on an empty array.\<close>

definition array_pop :: "jsval list \<Rightarrow> jsval" where
  "array_pop xs = (if xs = [] then JUndefined else last xs)"

definition lastAssistantMessage :: "jsval \<Rightarrow> thrown + jsval" where
  "lastAssistantMessage input =
     and_then (js_prop input ''messages'') (\<lambda>m.
     and_then (messages_filter_assistant (coalesce m (JArr []))) (\<lambda>assistants.
       Inr (coalesce (opt_prop (array_pop assistants) ''content'') (JStr ''''))))"

definition summarize_request :: "plugin_ctx \<Rightarrow> jsval \<Rightarrow> request" where
  "summarize_request ctx last_message =
     post_json ''/api/sessions/summarize''
       (JObj [(''contentSessionId'', JStr (sessionId ctx)),
              (''last_assistant_message'', last_message)])"

definition session_compacting_try ::
  "plugin_ctx \<Rightarrow> jsval \<Rightarrow> fetch_outcome \<Rightarrow> request list \<times> (thrown + unit)" where
  "session_compacting_try ctx input reply =
     (case lastAssistantMessage input of
        Inl e \<Rightarrow> ([], Inl e)
      | Inr last_message \<Rightarrow>
          ([summarize_request ctx last_message], and_then (await_fetch reply) (\<lambda>r. Inr ())))"

definition session_compacting ::
  "plugin_ctx \<Rightarrow> session \<Rightarrow> jsval \<Rightarrow> fetch_outcome \<Rightarrow> fetch_outcome \<Rightarrow> outcome" where
  "session_compacting ctx st input probe reply =
     (case ensureWorker probe of
        Inl e \<Rightarrow> rejected st ensureWorker_requests e
      | Inr live \<Rightarrow>
          if \<not> live then resolved st ensureWorker_requests JUndefined
          else if \<not> sessionInitialized st then resolved st ensureWorker_requests JUndefined
          else (case session_compacting_try ctx input reply of
                  (rs, Inl e) \<Rightarrow>
                    caught st (ensureWorker_requests @ rs) ''claude-mem: summarization failed'' e
                | (rs, Inr u) \<Rightarrow> resolved st (ensureWorker_requests @ rs) JUndefined))"

subsection \<open>The query tools\<close>

definition error_object :: "string \<Rightarrow> jsval" where
  "error_object m = JObj [(''error'', JStr m)]"

text \<open>The loop over \<open>Object.entries(params)\<close> that fills the \<open>URLSearchParams\<close>.\<close>

fun searchParams :: "(string \<times> jsval) list \<Rightarrow> (string \<times> jstring) list \<Rightarrow> (string \<times> jstring) list" where
  "searchParams [] sp = sp"
| "searchParams ((key, v) # entries) sp =
     searchParams entries
       (if v \<noteq> JUndefined \<and> v \<noteq> JNull then obj_set sp key (js_String v) else sp)"

text \<open>
  The three \<open>execute\<close> functions have one shape: the liveness gate, then a \<open>try\<close> that issues
  one request, returns an error object on a status that is not ok and the decoded body
  otherwise, and a \<open>catch\<close> that returns an error object. They differ in the request and in
  the word that starts their error messages. The tools are declared in the closure of the
  session variables and assign to neither.
\<close>

definition tool_try :: "string \<Rightarrow> fetch_outcome \<Rightarrow> thrown + jsval" where
  "tool_try name reply =
     try_catch
       (and_then (await_fetch reply) (\<lambda>r.
          if \<not> response_ok r
          then Inr (error_object (name @ '' failed: '' @ string_of_nat (status r)))
          else json_body r))
       (\<lambda>e. Inr (error_object (name @ '' error: '' @ message e)))"

definition tool_execute ::
  "string \<Rightarrow> request \<Rightarrow> session \<Rightarrow> fetch_outcome \<Rightarrow> fetch_outcome \<Rightarrow> outcome" where
  "tool_execute name req st probe reply =
     (case ensureWorker probe of
        Inl e \<Rightarrow> rejected st ensureWorker_requests e
      | Inr live \<Rightarrow>
          if \<not> live then resolved st ensureWorker_requests (error_object ''Worker service unavailable'')
          else (case tool_try name reply of
                  Inl e \<Rightarrow> rejected st (ensureWorker_requests @ [req]) e
                | Inr v \<Rightarrow> resolved st (ensureWorker_requests @ [req]) v))"

definition mem_search ::
  "session \<Rightarrow> (string \<times> jsval) list \<Rightarrow> fetch_outcome \<Rightarrow> fetch_outcome \<Rightarrow> outcome" where
  "mem_search st params probe reply =
     tool_execute ''Search'' (get_request ''/api/search'' (searchParams params [])) st probe reply"

definition mem_timeline ::
  "session \<Rightarrow> (string \<times> jsval) list \<Rightarrow> fetch_outcome \<Rightarrow> fetch_outcome \<Rightarrow> outcome" where
  "mem_timeline st params probe reply =
     tool_execute ''Timeline'' (get_request ''/api/timeline'' (searchParams params [])) st probe reply"

definition mem_get_observations ::
  "session \<Rightarrow> (string \<times> jsval) list \<Rightarrow> fetch_outcome \<Rightarrow> fetch_outcome \<Rightarrow> outcome" where
  "mem_get_observations st params probe reply =
     tool_execute ''Fetch'' (post_json ''/api/observations/batch'' (JObj params)) st probe reply"

subsection \<open>A plugin instance over time\<close>

text \<open>
  What the host can ask of one plugin instance: a hook with its arguments or a tool with
  its parameters. Each event carries how the two calls of \<open>fetch\<close> it may make would settle:
  first the liveness probe, then the call to the endpoint (not looked at when that call is
  not made).
\<close>

datatype event =
    ChatMessage jsval fetch_outcome fetch_outcome
  | ToolExecuteAfter jsval jsval fetch_outcome fetch_outcome
  | SystemTransform "(string \<times> jsval) list" fetch_outcome fetch_outcome
  | SessionCompacting jsval fetch_outcome fetch_outcome
  | MemSearch "(string \<times> jsval) list" fetch_outcome fetch_outcome
  | MemTimeline "(string \<times> jsval) list" fetch_outcome fetch_outcome
  | MemGetObservations "(string \<times> jsval) list" fetch_outcome fetch_outcome

fun handle :: "plugin_ctx \<Rightarrow> session \<Rightarrow> event \<Rightarrow> outcome" where
  "handle ctx st (ChatMessage input probe reply) = chat_message ctx st input probe reply"
| "handle ctx st (ToolExecuteAfter input toolOutput probe reply) =
     tool_execute_after ctx st input toolOutput probe reply"
| "handle ctx st (SystemTransform output probe reply) = system_transform ctx st output probe reply"
| "handle ctx st (SessionCompacting input probe reply) = session_compacting ctx st input probe reply"
| "handle ctx st (MemSearch params probe reply) = mem_search st params probe reply"
| "handle ctx st (MemTimeline params probe reply) = mem_timeline st params probe reply"
| "handle ctx st (MemGetObservations params probe reply) = mem_get_observations st params probe reply"

text \<open>The outcomes of a sequence of events, each handled in the session the previous one
  left.\<close>

fun run :: "plugin_ctx \<Rightarrow> session \<Rightarrow> event list \<Rightarrow> outcome list" where
  "run ctx st [] = []"
| "run ctx st (e # es) = handle ctx st e # run ctx (session_after (handle ctx st e)) es"

fun final_session :: "plugin_ctx \<Rightarrow> session \<Rightarrow> event list \<Rightarrow> session" where
  "final_session ctx st [] = st"
| "final_session ctx st (e # es) = final_session ctx (session_after (handle ctx st e)) es"

fun is_query_tool :: "event \<Rightarrow> bool" where
  "is_query_tool (MemSearch params probe reply) = True"
| "is_query_tool (MemTimeline params probe reply) = True"
| "is_query_tool (MemGetObservations params probe reply) = True"
| "is_query_tool e = False"

text \<open>The POSTs to sessions/init among the requests of an outcome, and of a run.\<close>

definition is_init_post :: "request \<Rightarrow> bool" where
  "is_init_post r = (meth r = POST \<and> path r = ''/api/sessions/init'')"

definition init_posts :: "outcome list \<Rightarrow> request list" where
  "init_posts outs = filter is_init_post (concat (map sent outs))"

text \<open>An initialization round trip that succeeds: an ok status and a body that decodes
  to a value whose \<open>sessionDbId\<close> can be read.\<close>

definition init_succeeds :: "fetch_outcome \<Rightarrow> bool" where
  "init_succeeds reply =
     (case reply of
        Responded r \<Rightarrow>
          response_ok r \<and> (case json_body r of Inr result \<Rightarrow> \<not> nullish result | Inl e \<Rightarrow> False)
      | _ \<Rightarrow> False)"


section \<open>The adapter: normalizeInput\<close>

record normalized_hook_input =
  hook_sessionId :: jsval
  hook_cwd :: jsval
  hook_platform :: string
  hook_prompt :: jsval
  hook_toolName :: jsval
  hook_toolInput :: jsval
  hook_toolResponse :: jsval
  hook_transcriptPath :: jsval

text \<open>\<open>process_cwd\<close> is how a call of \<open>process.cwd()\<close> would complete: with the working
  directory, or by throwing when that directory no longer exists. The call is made only
  when \<open>raw.cwd\<close> and \<open>raw.directory\<close> are both undefined or null. The casts of the source do
  nothing at run time; the first property read throws when \<open>raw\<close> is undefined or null.
  The properties of the object literal are evaluated in the order of the source.\<close>

definition normalizeInput :: "thrown + jstring \<Rightarrow> jsval \<Rightarrow> thrown + normalized_hook_input" where
  "normalizeInput process_cwd raw =
     and_then (js_prop raw ''sessionId'') (\<lambda>r_sessionId.
     and_then (js_prop raw ''cwd'') (\<lambda>r_cwd.
     and_then
       (if nullish r_cwd
        then and_then (js_prop raw ''directory'') (\<lambda>r_directory.
               if nullish r_directory
               then and_then process_cwd (\<lambda>d. Inr (JString d))
               else Inr r_directory)
        else Inr r_cwd) (\<lambda>cwd.
     and_then (js_prop raw ''prompt'') (\<lambda>r_prompt.
     and_then (js_prop raw ''toolName'') (\<lambda>r_toolName.
     and_then (js_prop raw ''toolInput'') (\<lambda>r_toolInput.
     and_then (js_prop raw ''toolOutput'') (\<lambda>r_toolOutput.
     and_then
       (if nullish r_toolOutput then js_prop raw ''toolResponse'' else Inr r_toolOutput)
       (\<lambda>toolResponse.
       Inr \<lparr>hook_sessionId = coalesce r_sessionId (JStr ''unknown''),
            hook_cwd = cwd,
            hook_platform = ''opencode'',
            hook_prompt = r_prompt,
            hook_toolName = r_toolName,
            hook_toolInput = r_toolInput,
            hook_toolResponse = toolResponse,
            hook_transcriptPath = JUndefined\<rparr>))))))))"

section \<open>Concrete inputs\<close>

definition example_ctx :: plugin_ctx where
  "example_ctx =
     \<lparr>sessionId = ''opencode-1700000000000-k3j9x2m1q'',
      project = JObj [(''name'', JStr ''demo'')],
      directory = JStr ''/work/demo''\<rparr>"

definition ok_response :: response where
  "ok_response =
     \<lparr>status = 200, text_body = Inr (ustr ''Recent work: fixed the parser''),
      json_body = Inr (JObj [(''sessionDbId'', JNum 7)])\<rparr>"

definition failed_response :: response where
  "failed_response =
     \<lparr>status = 500, text_body = Inr (ustr ''Internal Server Error''),
      json_body = Inl (SyntaxError ''Unexpected token I in JSON at position 0'')\<rparr>"

definition hello :: jsval where
  "hello = JObj [(''content'', JStr ''hello'')]"

definition initialized_session :: session where
  "initialized_session = \<lparr>sessionInitialized = True, sessionDbId = JNum 7\<rparr>"

definition bash_call :: jsval where
  "bash_call = JObj [(''tool'', JObj [(''name'', JStr ''bash''), (''input'', JObj [(''command'', JStr ''ls'')])])]"

definition example_messages :: "jsval list" where
  "example_messages =
     [JObj [(''role'', JStr ''user''), (''content'', JStr ''fix the parser'')],
      JObj [(''role'', JStr ''assistant''), (''content'', JStr ''A'')],
      JObj [(''role'', JStr ''user''), (''content'', JStr ''now the tests'')],
      JObj [(''role'', JStr ''assistant''), (''content'', JStr ''B'')]]"

definition example_compacting_input :: jsval where
  "example_compacting_input = JObj [(''messages'', JArr example_messages)]"



section \<open>Texts as strings\<close>

lemma ustr_eq_iff [simp]: "(ustr s = ustr t) = (s = t)"
  by (simp add: ustr_def inj_map_eq_map inj_of_char)

lemma ustr_Nil [simp]: "ustr [] = []"
  by (simp add: ustr_def)

lemma ustr_eq_Nil_iff [simp]: "(ustr s = []) = (s = [])"
  by (simp add: ustr_def)


section \<open>The liveness probe\<close>

lemma ensureWorker_Inr:
  "ensureWorker probe = Inr (case probe of Responded r \<Rightarrow> response_ok r | _ \<Rightarrow> False)"
  by (cases probe) (simp_all add: ensureWorker_def try_catch_def)

lemma ensureWorker_True_iff:
  "(ensureWorker probe = Inr True) = (\<exists>r. probe = Responded r \<and> response_ok r)"
  by (cases probe) (simp_all add: ensureWorker_Inr)

lemma ok_response_facts:
  "response_ok ok_response"
  "json_body ok_response = Inr (JObj [(''sessionDbId'', JNum 7)])"
  "text_body ok_response = Inr (ustr ''Recent work: fixed the parser'')"
  by (simp_all add: response_ok_def ok_response_def)

lemma failed_response_facts:
  "\<not> response_ok failed_response"
  "status failed_response = 500"
  by (simp_all add: response_ok_def failed_response_def)

lemma ensureWorker_ok_response: "ensureWorker (Responded ok_response) = Inr True"
  by (simp add: ensureWorker_Inr response_ok_def ok_response_def)

lemma ensureWorker_failed_response: "ensureWorker (Responded failed_response) = Inr False"
  by (simp add: ensureWorker_Inr response_ok_def failed_response_def)

text \<open>
  C6. \<open>ensureWorker\<close> always resolves and never throws. It issues one request, a GET of
  the readiness endpoint whose abort signal is set to 5000 milliseconds (time itself is
  not modelled: a timeout is the fetch outcome \<open>TimedOut\<close>). It resolves with false on a
  network error, on a timeout and on a status that is not ok, and with true exactly when
  the probe was answered with an ok status.
\<close>

theorem ensureWorker_single_bounded_probe:
  "(\<exists>b. ensureWorker probe = Inr b)
   \<and> ensureWorker_requests = [readiness_request]
   \<and> meth readiness_request = GET
   \<and> path readiness_request = ''/api/readiness''
   \<and> (\<exists>t. timeout_ms readiness_request = Some t \<and> t \<le> 5000)
   \<and> ensureWorker (NetworkError m) = Inr False
   \<and> ensureWorker TimedOut = Inr False
   \<and> ensureWorker (Responded r) = Inr (response_ok r)
   \<and> (ensureWorker probe = Inr True) = (\<exists>r. probe = Responded r \<and> response_ok r)"
  using ensureWorker_True_iff [of probe]
  by (simp add: ensureWorker_Inr ensureWorker_requests_def readiness_request_def get_request_def)

section \<open>The query tools\<close>

lemma tool_try_Inr: "\<exists>v. tool_try name reply = Inr v"
  by (cases reply) (auto simp: tool_try_def try_catch_def and_then_def split: sum.splits)

lemma tool_try_cases:
  "tool_try name reply =
     Inr (case reply of
            NetworkError m \<Rightarrow> error_object (name @ '' error: '' @ m)
          | TimedOut \<Rightarrow> error_object (name @ '' error: '' @ message TimeoutError)
          | Responded r \<Rightarrow>
              if \<not> response_ok r
              then error_object (name @ '' failed: '' @ string_of_nat (status r))
              else (case json_body r of
                      Inl e \<Rightarrow> error_object (name @ '' error: '' @ message e)
                    | Inr j \<Rightarrow> j))"
  by (cases reply) (auto simp: tool_try_def try_catch_def and_then_def split: sum.splits)

lemma tool_execute_settled:
  "settled (tool_execute name req st probe reply) =
     (if ensureWorker probe = Inr True then tool_try name reply
      else Inr (error_object ''Worker service unavailable''))"
  using tool_try_Inr [of name reply]
  by (auto simp: tool_execute_def ensureWorker_Inr resolved_def rejected_def
           split: fetch_outcome.splits sum.splits)

lemma tool_execute_session: "session_after (tool_execute name req st probe reply) = st"
  by (auto simp: tool_execute_def resolved_def rejected_def split: sum.splits)

text \<open>
  C7. None of mem-search, mem-timeline and mem-get-observations throws: its \<open>execute\<close>
  always resolves. When the liveness probe fails, when the call is rejected by a network
  error or a timeout, when the status is not ok and when the body does not decode, it
  resolves with an object whose only property is a string \<open>error\<close>. When the probe passes
  and the call is answered with an ok status and a body that decodes, it resolves with
  the decoded body as it is.
\<close>

theorem query_tools_never_throw:
  assumes "tool \<in> {mem_search, mem_timeline, mem_get_observations}"
  shows "(\<exists>v. settled (tool st params probe reply) = Inr v)
    \<and> (ensureWorker probe \<noteq> Inr True \<longrightarrow>
          settled (tool st params probe reply) = Inr (JObj [(''error'', JStr ''Worker service unavailable'')]))
    \<and> (\<forall>m. reply = NetworkError m \<longrightarrow>
          (\<exists>s. settled (tool st params probe reply) = Inr (JObj [(''error'', JStr s)])))
    \<and> (reply = TimedOut \<longrightarrow>
          (\<exists>s. settled (tool st params probe reply) = Inr (JObj [(''error'', JStr s)])))
    \<and> (\<forall>r. reply = Responded r \<and> \<not> response_ok r \<longrightarrow>
          (\<exists>s. settled (tool st params probe reply) = Inr (JObj [(''error'', JStr s)])))
    \<and> (\<forall>r e. reply = Responded r \<and> json_body r = Inl e \<longrightarrow>
          (\<exists>s. settled (tool st params probe reply) = Inr (JObj [(''error'', JStr s)])))
    \<and> (\<forall>r j. ensureWorker probe = Inr True \<and> reply = Responded r \<and> response_ok r
             \<and> json_body r = Inr j \<longrightarrow>
          settled (tool st params probe reply) = Inr j)"
proof -
  obtain name req where tool: "tool st params probe reply = tool_execute name req st probe reply"
    using assms by (auto simp: mem_search_def mem_timeline_def mem_get_observations_def)
  show ?thesis
    unfolding tool tool_execute_settled tool_try_cases
    by (auto simp: error_object_def)
qed

theorem query_tools_never_throw_witness:
  "mem_search \<in> {mem_search, mem_timeline, mem_get_observations}
   \<and> ensureWorker (Responded ok_response) = Inr True
   \<and> response_ok ok_response
   \<and> json_body ok_response = Inr (JObj [(''sessionDbId'', JNum 7)])
   \<and> settled (mem_search initial_session [(''query'', JStr ''parser'')]
        (Responded ok_response) (Responded ok_response)) = Inr (JObj [(''sessionDbId'', JNum 7)])
   \<and> \<not> response_ok failed_response
   \<and> (\<exists>s. settled (mem_search initial_session [(''query'', JStr ''parser'')]
        (Responded ok_response) (Responded failed_response)) = Inr (JObj [(''error'', JStr s)]))"
  using query_tools_never_throw [of mem_search initial_session "[(''query'', JStr ''parser'')]"
          "Responded ok_response" "Responded ok_response"]
        query_tools_never_throw [of mem_search initial_session "[(''query'', JStr ''parser'')]"
          "Responded ok_response" "Responded failed_response"]
  by (simp add: ensureWorker_ok_response ok_response_facts failed_response_facts)

section \<open>The session variables\<close>


lemma query_tool_session: "is_query_tool e \<Longrightarrow> session_after (handle ctx st e) = st"
  by (cases e) (simp_all add: mem_search_def mem_timeline_def mem_get_observations_def tool_execute_session)

text \<open>
  C8. Calls of mem-search, mem-timeline and mem-get-observations, in any number, with any
  parameters and however the worker answers, leave \<open>sessionInitialized\<close> and \<open>sessionDbId\<close>
  as they were: after the whole sequence and after each call of it.
\<close>

theorem query_tools_keep_session:
  assumes "\<forall>e\<in>set es. is_query_tool e"
  shows "final_session ctx st es = st \<and> (\<forall>out\<in>set (run ctx st es). session_after out = st)"
  using assms
proof (induction es)
  case Nil
  show ?case by simp
next
  case (Cons e es)
  then have "session_after (handle ctx st e) = st"
    by (simp add: query_tool_session)
  with Cons show ?case by simp
qed

theorem query_tools_keep_session_witness:
  "is_query_tool (MemSearch [(''query'', JStr ''parser'')] (Responded ok_response) (Responded ok_response))
   \<and> is_query_tool (MemTimeline [(''anchor'', JNum 12)] (Responded ok_response) TimedOut)
   \<and> is_query_tool (MemGetObservations [(''ids'', JArr [JNum 12, JNum 13])] (Responded ok_response) (Responded failed_response))
   \<and> final_session example_ctx initialized_session
        [MemSearch [(''query'', JStr ''parser'')] (Responded ok_response) (Responded ok_response),
         MemTimeline [(''anchor'', JNum 12)] (Responded ok_response) TimedOut,
         MemGetObservations [(''ids'', JArr [JNum 12, JNum 13])] (Responded ok_response) (Responded failed_response)]
       = initialized_session"
proof -
  let ?es = "[MemSearch [(''query'', JStr ''parser'')] (Responded ok_response) (Responded ok_response),
          MemTimeline [(''anchor'', JNum 12)] (Responded ok_response) TimedOut,
          MemGetObservations [(''ids'', JArr [JNum 12, JNum 13])] (Responded ok_response) (Responded failed_response)]"
  have tools: "\<forall>e\<in>set ?es. is_query_tool e" by simp
  from query_tools_keep_session [OF tools, of example_ctx initialized_session]
  have "final_session example_ctx initialized_session ?es = initialized_session" by blast
  with tools show ?thesis by (simp del: final_session.simps)
qed

lemma chat_prompt_Inr: "\<exists>p. chat_prompt input = Inr p"
  by (cases input) (simp_all add: chat_prompt_def and_then_def)

lemma chat_message_try_cases:
  "\<exists>p. chat_message_try ctx st input reply =
     ([init_request ctx p],
      case reply of
        Responded r \<Rightarrow>
          if response_ok r
          then (case json_body r of
                  Inl e \<Rightarrow> Inl e
                | Inr result \<Rightarrow>
                    (case js_prop result ''sessionDbId'' of
                       Inl e \<Rightarrow> Inl e
                     | Inr v \<Rightarrow> Inr (st\<lparr>sessionDbId := coalesce v JNull, sessionInitialized := True\<rparr>)))
          else Inr st
      | NetworkError m \<Rightarrow> Inl (FetchFailed m)
      | TimedOut \<Rightarrow> Inl TimeoutError)"
  using chat_prompt_Inr [of input]
  by (cases reply) (auto simp: chat_message_try_def and_then_def split: sum.splits)

lemma js_prop_opt_prop: "\<not> nullish x \<Longrightarrow> js_prop x k = Inr (opt_prop x k)"
  by (cases x) (simp_all add: nullish_def opt_prop_def)

lemma js_prop_Inr_D: "js_prop x k = Inr v \<Longrightarrow> \<not> nullish x \<and> v = opt_prop x k"
  by (cases x) (auto simp: nullish_def opt_prop_def)

lemma js_prop_nullish: "nullish x \<Longrightarrow> \<exists>e. js_prop x k = Inl e"
  by (cases x) (simp_all add: nullish_def)

lemma chat_message_session:
  "session_after (chat_message ctx st input probe reply) =
     (if ensureWorker probe = Inr True \<and> \<not> sessionInitialized st
      then (case reply of
              Responded r \<Rightarrow>
                if response_ok r
                then (case json_body r of
                        Inr result \<Rightarrow>
                          if nullish result then st
                          else st\<lparr>sessionDbId := coalesce (opt_prop result ''sessionDbId'') JNull,
                                  sessionInitialized := True\<rparr>
                      | Inl e \<Rightarrow> st)
                else st
            | _ \<Rightarrow> st)
      else st)"
proof -
  obtain p where p: "chat_message_try ctx st input reply =
     ([init_request ctx p],
      case reply of
        Responded r \<Rightarrow>
          if response_ok r
          then (case json_body r of
                  Inl e \<Rightarrow> Inl e
                | Inr result \<Rightarrow>
                    (case js_prop result ''sessionDbId'' of
                       Inl e \<Rightarrow> Inl e
                     | Inr v \<Rightarrow> Inr (st\<lparr>sessionDbId := coalesce v JNull, sessionInitialized := True\<rparr>)))
          else Inr st
      | NetworkError m \<Rightarrow> Inl (FetchFailed m)
      | TimedOut \<Rightarrow> Inl TimeoutError)"
    using chat_message_try_cases by blast
  show ?thesis
    unfolding chat_message_def p
    by (auto simp: ensureWorker_Inr resolved_def rejected_def caught_def js_prop_opt_prop
             split: fetch_outcome.splits sum.splits dest: js_prop_nullish js_prop_Inr_D)
qed

lemma chat_message_sent:
  "\<exists>p. sent (chat_message ctx st input probe reply) =
     (if ensureWorker probe = Inr True \<and> \<not> sessionInitialized st
      then [readiness_request, init_request ctx p] else [readiness_request])"
proof -
  obtain p x where p: "chat_message_try ctx st input reply = ([init_request ctx p], x)"
    using chat_message_try_cases by blast
  show ?thesis
    unfolding chat_message_def p
    by (auto simp: ensureWorker_Inr resolved_def rejected_def caught_def ensureWorker_requests_def
             split: fetch_outcome.splits sum.splits intro!: exI [of _ p])
qed

lemma tool_execute_after_session:
  "session_after (tool_execute_after ctx st input toolOutput probe reply) = st"
  by (auto simp: tool_execute_after_def resolved_def rejected_def caught_def split: sum.splits prod.splits)

lemma system_transform_session:
  "session_after (system_transform ctx st output probe reply) = st"
  by (auto simp: system_transform_def resolved_def rejected_def caught_def split: sum.splits prod.splits)

lemma session_compacting_session:
  "session_after (session_compacting ctx st input probe reply) = st"
  by (auto simp: session_compacting_def resolved_def rejected_def caught_def split: sum.splits prod.splits)

lemmas session_frames =
  tool_execute_after_session system_transform_session session_compacting_session
  tool_execute_session mem_search_def mem_timeline_def mem_get_observations_def

lemma handle_initialized: "sessionInitialized st \<Longrightarrow> session_after (handle ctx st e) = st"
  by (cases e) (simp_all add: session_frames chat_message_session)

lemma handle_stays_uninitialized:
  "\<not> sessionInitialized (session_after (handle ctx st e)) \<Longrightarrow> session_after (handle ctx st e) = st"
  by (cases e)
     (auto simp: session_frames chat_message_session split: if_splits fetch_outcome.splits sum.splits)

lemma final_session_initialized: "sessionInitialized st \<Longrightarrow> final_session ctx st es = st"
  by (induction es) (simp_all add: handle_initialized)

lemma final_session_uninitialized:
  "\<not> sessionInitialized (final_session ctx st es) \<Longrightarrow> final_session ctx st es = st"
proof (induction es arbitrary: st)
  case Nil
  show ?case by simp
next
  case (Cons e es)
  let ?st' = "session_after (handle ctx st e)"
  from Cons.prems have fin: "\<not> sessionInitialized (final_session ctx ?st' es)" by simp
  then have eq: "final_session ctx ?st' es = ?st'" by (rule Cons.IH)
  with fin have "\<not> sessionInitialized ?st'" by simp
  then have "?st' = st" by (rule handle_stays_uninitialized)
  with eq show ?case by simp
qed

text \<open>
  C9. The flag starts false and the remote id starts null. An event turns the flag from
  false to true only if it is a chat message whose liveness probe passed and whose
  sessions/init call was answered with an ok status and a decoded body; the remote id is
  then the body's \<open>sessionDbId\<close>, or null when the body has none. An event that leaves the
  flag false leaves both variables alone. Once the flag is true no hook and no tool changes
  either variable, for the rest of any sequence of events.
\<close>

theorem session_flag_lifecycle:
  "sessionInitialized initial_session = False
   \<and> sessionDbId initial_session = JNull
   \<and> (\<not> sessionInitialized st \<and> sessionInitialized (session_after (handle ctx st e)) \<longrightarrow>
        (\<exists>input probe r result.
           e = ChatMessage input probe (Responded r) \<and> ensureWorker probe = Inr True
           \<and> response_ok r \<and> json_body r = Inr result
           \<and> sessionDbId (session_after (handle ctx st e))
               = (if nullish (opt_prop result ''sessionDbId'') then JNull
                  else opt_prop result ''sessionDbId'')))
   \<and> (\<not> sessionInitialized (session_after (handle ctx st e)) \<longrightarrow> session_after (handle ctx st e) = st)
   \<and> (sessionInitialized st \<longrightarrow> session_after (handle ctx st e) = st)
   \<and> (sessionInitialized st \<longrightarrow> final_session ctx st es = st)
   \<and> (\<not> sessionInitialized (final_session ctx initial_session es) \<longrightarrow>
        sessionDbId (final_session ctx initial_session es) = JNull)"
proof -
  have transition: "\<not> sessionInitialized st \<and> sessionInitialized (session_after (handle ctx st e)) \<longrightarrow>
        (\<exists>input probe r result.
           e = ChatMessage input probe (Responded r) \<and> ensureWorker probe = Inr True
           \<and> response_ok r \<and> json_body r = Inr result
           \<and> sessionDbId (session_after (handle ctx st e))
               = (if nullish (opt_prop result ''sessionDbId'') then JNull
                  else opt_prop result ''sessionDbId''))"
    by (cases e)
       (auto simp: session_frames chat_message_session coalesce_def
             split: if_splits fetch_outcome.splits sum.splits)
  have null: "\<not> sessionInitialized (final_session ctx initial_session es) \<longrightarrow>
        sessionDbId (final_session ctx initial_session es) = JNull"
    using final_session_uninitialized [of ctx initial_session es]
    by (auto simp: initial_session_def)
  show ?thesis
    using transition null handle_stays_uninitialized [of ctx st e]
      handle_initialized [of st ctx e] final_session_initialized [of st ctx es]
    by (simp add: initial_session_def)
qed

lemma example_init:
  "session_after (handle example_ctx initial_session
      (ChatMessage hello (Responded ok_response) (Responded ok_response)))
   = initialized_session"
  by (simp add: chat_message_session ensureWorker_ok_response ok_response_facts initial_session_def
        initialized_session_def nullish_def coalesce_def opt_prop_def)

theorem session_flag_lifecycle_witness:
  "\<not> sessionInitialized initial_session
   \<and> sessionInitialized (session_after (handle example_ctx initial_session
        (ChatMessage hello (Responded ok_response) (Responded ok_response))))
   \<and> sessionDbId (session_after (handle example_ctx initial_session
        (ChatMessage hello (Responded ok_response) (Responded ok_response)))) = JNum 7
   \<and> \<not> sessionInitialized (session_after (handle example_ctx initial_session
        (ChatMessage hello (Responded ok_response) (Responded failed_response))))
   \<and> session_after (handle example_ctx initial_session
        (ChatMessage hello (Responded ok_response) (Responded failed_response))) = initial_session
   \<and> sessionInitialized initialized_session
   \<and> final_session example_ctx initialized_session
        [ChatMessage hello (Responded ok_response) (Responded failed_response),
         SessionCompacting JNull (Responded ok_response) TimedOut] = initialized_session"
  using session_flag_lifecycle [where ctx = example_ctx and st = initial_session
          and e = "ChatMessage hello (Responded ok_response) (Responded ok_response)" and es = "[]"]
        session_flag_lifecycle [where ctx = example_ctx and st = initial_session
          and e = "ChatMessage hello (Responded ok_response) (Responded failed_response)" and es = "[]"]
        session_flag_lifecycle [where ctx = example_ctx and st = initialized_session
          and e = "ChatMessage hello (Responded ok_response) (Responded failed_response)"
          and es = "[ChatMessage hello (Responded ok_response) (Responded failed_response),
                     SessionCompacting JNull (Responded ok_response) TimedOut]"]
        example_init
  by (simp add: initialized_session_def initial_session_def chat_message_session
        ensureWorker_ok_response failed_response_facts)












section \<open>Initialization and the hooks that wait for it\<close>

lemma init_post_facts:
  "\<not> is_init_post readiness_request"
  "is_init_post (init_request ctx p)"
  "\<not> is_init_post (observation_request ctx a b c)"
  "\<not> is_init_post (summarize_request ctx d)"
  "\<not> is_init_post (inject_request ctx)"
  "\<not> is_init_post (get_request pa q)"
  "\<not> is_init_post (post_json ''/api/observations/batch'' j)"
  by (simp_all add: is_init_post_def readiness_request_def init_request_def observation_request_def
        summarize_request_def inject_request_def get_request_def post_json_def)

lemma chat_message_init_posts:
  "length (filter is_init_post (sent (chat_message ctx st input probe reply))) =
     (if ensureWorker probe = Inr True \<and> \<not> sessionInitialized st then 1 else 0)"
  using chat_message_sent [of ctx st input probe reply]
  by (auto simp: init_post_facts)

lemma chat_message_initialized:
  "sessionInitialized (session_after (chat_message ctx st input probe reply)) =
     (sessionInitialized st \<or> (ensureWorker probe = Inr True \<and> init_succeeds reply))"
  by (auto simp: chat_message_session init_succeeds_def split: fetch_outcome.splits sum.splits)

lemma handle_initialized_no_init_post:
  "sessionInitialized st \<Longrightarrow> filter is_init_post (sent (handle ctx st e)) = []"
  by (cases e)
     (auto simp: chat_message_def tool_execute_after_def
        tool_execute_after_try_def session_compacting_def session_compacting_try_def
        system_transform_def system_transform_try_def mem_search_def mem_timeline_def
        mem_get_observations_def tool_execute_def
        resolved_def rejected_def caught_def ensureWorker_requests_def init_post_facts
      split: sum.splits prod.splits if_splits)

lemma run_initialized_no_init_post:
  "sessionInitialized st \<Longrightarrow> init_posts (run ctx st es) = []"
proof (induction es)
  case Nil
  show ?case by (simp add: init_posts_def)
next
  case (Cons e es)
  then show ?case
    using handle_initialized [of st ctx e] handle_initialized_no_init_post [of st ctx e]
    by (simp add: init_posts_def)
qed

text \<open>
  C1, as the code has it. The guard of chat.message is the flag \<open>sessionInitialized\<close>, which
  is set only when an initialization succeeds; no attempt is recorded. So a chat-message
  event issues one POST to sessions/init when its liveness probe passes and the flag is
  still false, and none otherwise; the flag is true afterwards exactly when it was true
  before or this POST was answered with an ok status and a body that decodes. Once the
  flag is true no event of any kind issues a POST to sessions/init. For two chat messages
  after construction the number of such POSTs is therefore one for the first if its probe
  passes, plus one for the second if its probe passes and the first did not succeed: a
  failed attempt is retried, and two failed probes give no POST at all.
\<close>

theorem init_post_until_success:
  "length (init_posts [chat_message ctx st input probe reply]) =
     (if ensureWorker probe = Inr True \<and> \<not> sessionInitialized st then 1 else 0)
   \<and> sessionInitialized (session_after (chat_message ctx st input probe reply)) =
       (sessionInitialized st \<or> (ensureWorker probe = Inr True \<and> init_succeeds reply))
   \<and> (sessionInitialized st \<longrightarrow> init_posts (run ctx st es) = [])
   \<and> length (init_posts (run ctx initial_session
         [ChatMessage input1 probe1 reply1, ChatMessage input2 probe2 reply2])) =
       (if ensureWorker probe1 = Inr True then 1 else 0)
       + (if ensureWorker probe2 = Inr True
             \<and> \<not> (ensureWorker probe1 = Inr True \<and> init_succeeds reply1) then 1 else 0)"
proof -
  have two: "length (init_posts (run ctx initial_session
         [ChatMessage input1 probe1 reply1, ChatMessage input2 probe2 reply2])) =
       (if ensureWorker probe1 = Inr True then 1 else 0)
       + (if ensureWorker probe2 = Inr True
             \<and> \<not> (ensureWorker probe1 = Inr True \<and> init_succeeds reply1) then 1 else 0)"
    by (simp add: init_posts_def chat_message_init_posts chat_message_initialized initial_session_def)
  show ?thesis
    using two run_initialized_no_init_post [of st ctx es]
    by (simp add: init_posts_def chat_message_init_posts chat_message_initialized)
qed

theorem init_post_until_success_witness:
  "ensureWorker (Responded ok_response) = Inr True
   \<and> \<not> sessionInitialized initial_session
   \<and> length (init_posts [chat_message example_ctx initial_session hello
        (Responded ok_response) (Responded failed_response)]) = 1
   \<and> sessionInitialized initialized_session
   \<and> init_posts (run example_ctx initialized_session
        [ChatMessage hello (Responded ok_response) (Responded ok_response),
         ChatMessage hello (Responded ok_response) (Responded failed_response)]) = []"
  using init_post_until_success [where ctx = example_ctx and st = initial_session and input = hello
          and probe = "Responded ok_response" and reply = "Responded failed_response" and es = "[]"]
        init_post_until_success [where ctx = example_ctx and st = initialized_session
          and es = "[ChatMessage hello (Responded ok_response) (Responded ok_response),
                     ChatMessage hello (Responded ok_response) (Responded failed_response)]"]
  by (simp add: ensureWorker_ok_response initial_session_def initialized_session_def
           del: run.simps)

text \<open>
  C1 as stated fails: with a first attempt answered 500 and a second answered 200 there
  are two POSTs to sessions/init, and with two failed liveness probes there is none.
\<close>

theorem init_retried_counterexample:
  "length (init_posts (run example_ctx initial_session
      [ChatMessage hello (Responded ok_response) (Responded failed_response),
       ChatMessage hello (Responded ok_response) (Responded ok_response)])) = 2
   \<and> length (init_posts (run example_ctx initial_session
      [ChatMessage hello TimedOut (Responded ok_response),
       ChatMessage hello (Responded failed_response) (Responded ok_response)])) = 0"
  by (simp add: init_posts_def chat_message_init_posts chat_message_initialized initial_session_def
        ensureWorker_ok_response ensureWorker_failed_response ensureWorker_Inr init_succeeds_def
        failed_response_facts ok_response_facts)

lemma uninitialized_tool_execute_after:
  "\<not> sessionInitialized st \<Longrightarrow>
   tool_execute_after ctx st input toolOutput probe reply = resolved st [readiness_request] JUndefined"
  by (simp add: tool_execute_after_def ensureWorker_Inr ensureWorker_requests_def)

lemma uninitialized_session_compacting:
  "\<not> sessionInitialized st \<Longrightarrow>
   session_compacting ctx st input probe reply = resolved st [readiness_request] JUndefined"
  by (simp add: session_compacting_def ensureWorker_Inr ensureWorker_requests_def)

text \<open>
  C2, as the code has it. While \<open>sessionInitialized\<close> is false, tool.execute.after and
  experimental.session.compacting issue the liveness probe (GET /api/readiness), which
  comes before the test of the flag, and nothing else: no request to any other endpoint,
  no log line, no change of the session variables, and the hook returns undefined.
\<close>

theorem uninitialized_hooks_only_probe:
  assumes "\<not> sessionInitialized st"
  shows "sent (tool_execute_after ctx st input toolOutput probe reply) = [readiness_request]
    \<and> session_after (tool_execute_after ctx st input toolOutput probe reply) = st
    \<and> logged (tool_execute_after ctx st input toolOutput probe reply) = []
    \<and> settled (tool_execute_after ctx st input toolOutput probe reply) = Inr JUndefined
    \<and> sent (session_compacting ctx st input probe reply) = [readiness_request]
    \<and> session_after (session_compacting ctx st input probe reply) = st
    \<and> logged (session_compacting ctx st input probe reply) = []
    \<and> settled (session_compacting ctx st input probe reply) = Inr JUndefined
    \<and> meth readiness_request = GET \<and> path readiness_request = ''/api/readiness''"
  using assms
  by (simp add: uninitialized_tool_execute_after uninitialized_session_compacting resolved_def
        readiness_request_def get_request_def)

theorem uninitialized_hooks_only_probe_witness:
  "\<not> sessionInitialized initial_session
   \<and> sent (tool_execute_after example_ctx initial_session bash_call (JStr ''README.md'')
        (Responded ok_response) (Responded ok_response)) = [readiness_request]
   \<and> sent (session_compacting example_ctx initial_session (JObj [(''messages'', JArr [])])
        (Responded ok_response) (Responded ok_response)) = [readiness_request]"
  using uninitialized_hooks_only_probe [where st = initial_session and ctx = example_ctx
          and input = bash_call and toolOutput = "JStr ''README.md''"
          and probe = "Responded ok_response" and reply = "Responded ok_response"]
        uninitialized_hooks_only_probe [where st = initial_session and ctx = example_ctx
          and input = "JObj [(''messages'', JArr [])]"
          and probe = "Responded ok_response" and reply = "Responded ok_response"]
  by (simp add: initial_session_def)

text \<open>
  C2 as stated fails: a tool-execution event before any chat message issues one request,
  the liveness probe, and so does a compaction event, also when the worker is down.
\<close>

theorem uninitialized_probe_counterexample:
  "length (sent (handle example_ctx initial_session
      (ToolExecuteAfter bash_call (JStr ''README.md'') (Responded ok_response) (Responded ok_response)))) = 1
   \<and> length (sent (handle example_ctx initial_session
      (SessionCompacting (JObj [(''messages'', JArr [])]) (NetworkError ''ECONNREFUSED'') TimedOut))) = 1"
  by (simp add: uninitialized_tool_execute_after uninitialized_session_compacting resolved_def
        initial_session_def)

section \<open>The adapter, context injection and compaction\<close>

lemma and_then_Inr [simp]: "and_then (Inr v) f = f v"
  by (simp add: and_then_def)

lemma and_then_Inl [simp]: "and_then (Inl e) f = Inl e"
  by (simp add: and_then_def)

lemma normalizeInput_defined:
  "\<not> nullish raw \<Longrightarrow>
   normalizeInput process_cwd raw =
     and_then
       (if nullish (opt_prop raw ''cwd'')
        then if nullish (opt_prop raw ''directory'')
             then and_then process_cwd (\<lambda>d. Inr (JString d))
             else Inr (opt_prop raw ''directory'')
        else Inr (opt_prop raw ''cwd''))
       (\<lambda>cwd.
          Inr \<lparr>hook_sessionId = coalesce (opt_prop raw ''sessionId'') (JStr ''unknown''),
               hook_cwd = cwd,
               hook_platform = ''opencode'',
               hook_prompt = opt_prop raw ''prompt'',
               hook_toolName = opt_prop raw ''toolName'',
               hook_toolInput = opt_prop raw ''toolInput'',
               hook_toolResponse = coalesce (opt_prop raw ''toolOutput'') (opt_prop raw ''toolResponse''),
               hook_transcriptPath = JUndefined\<rparr>)"
  by (simp add: normalizeInput_def js_prop_opt_prop coalesce_def)

text \<open>
  C3, as the code has it. For a raw input other than undefined and null,
  \<open>normalizeInput\<close> returns whenever the input has a \<open>cwd\<close> or a \<open>directory\<close> that is neither
  undefined nor null, or \<open>process.cwd()\<close> returns; when the input has neither and
  \<open>process.cwd()\<close> throws, \<open>normalizeInput\<close> throws what it threw. In a result, \<open>platform\<close>
  is 'opencode' and \<open>transcriptPath\<close> is undefined; \<open>sessionId\<close> is the input's, or 'unknown'
  when that is undefined or null; \<open>cwd\<close> is the input's \<open>cwd\<close>, else its \<open>directory\<close>, else the
  working directory of the process, each taken when the one before is undefined or null;
  \<open>prompt\<close>, \<open>toolName\<close> and \<open>toolInput\<close> are the input's properties as they are (undefined
  when the input has none, and a null of the host stays null); \<open>toolResponse\<close> is the
  input's \<open>toolOutput\<close>, or its \<open>toolResponse\<close> when \<open>toolOutput\<close> is undefined or null. On the
  empty payload, when \<open>process.cwd()\<close> returns, every optional field is undefined,
  \<open>sessionId\<close> is 'unknown' and \<open>cwd\<close> is the working directory of the process.
\<close>

theorem normalizeInput_on_objects:
  assumes "\<not> nullish raw"
  shows "(\<not> nullish (opt_prop raw ''cwd'') \<or> \<not> nullish (opt_prop raw ''directory'')
          \<or> (\<exists>d. process_cwd = Inr d) \<longrightarrow>
            (\<exists>n. normalizeInput process_cwd raw = Inr n))
    \<and> (\<forall>e. nullish (opt_prop raw ''cwd'') \<and> nullish (opt_prop raw ''directory'')
            \<and> process_cwd = Inl e \<longrightarrow>
            normalizeInput process_cwd raw = Inl e)
    \<and> (\<forall>n. normalizeInput process_cwd raw = Inr n \<longrightarrow>
          hook_platform n = ''opencode''
        \<and> hook_transcriptPath n = JUndefined
        \<and> hook_sessionId n =
            (if nullish (opt_prop raw ''sessionId'') then JStr ''unknown''
             else opt_prop raw ''sessionId'')
        \<and> (\<not> nullish (opt_prop raw ''cwd'') \<longrightarrow> hook_cwd n = opt_prop raw ''cwd'')
        \<and> (nullish (opt_prop raw ''cwd'') \<and> \<not> nullish (opt_prop raw ''directory'') \<longrightarrow>
              hook_cwd n = opt_prop raw ''directory'')
        \<and> (nullish (opt_prop raw ''cwd'') \<and> nullish (opt_prop raw ''directory'') \<longrightarrow>
              (\<exists>d. process_cwd = Inr d \<and> hook_cwd n = JString d))
        \<and> hook_prompt n = opt_prop raw ''prompt''
        \<and> hook_toolName n = opt_prop raw ''toolName''
        \<and> hook_toolInput n = opt_prop raw ''toolInput''
        \<and> hook_toolResponse n =
            (if nullish (opt_prop raw ''toolOutput'') then opt_prop raw ''toolResponse''
             else opt_prop raw ''toolOutput''))
    \<and> (\<forall>d. raw = JObj [] \<and> process_cwd = Inr d \<longrightarrow>
          normalizeInput process_cwd raw =
            Inr \<lparr>hook_sessionId = JStr ''unknown'', hook_cwd = JString d,
                 hook_platform = ''opencode'', hook_prompt = JUndefined,
                 hook_toolName = JUndefined, hook_toolInput = JUndefined,
                 hook_toolResponse = JUndefined, hook_transcriptPath = JUndefined\<rparr>)"
proof -
  have returns: "\<not> nullish (opt_prop raw ''cwd'') \<or> \<not> nullish (opt_prop raw ''directory'')
          \<or> (\<exists>d. process_cwd = Inr d) \<longrightarrow>
            (\<exists>n. normalizeInput process_cwd raw = Inr n)"
    by (auto simp: normalizeInput_defined [OF assms])
  have throws: "\<forall>e. nullish (opt_prop raw ''cwd'') \<and> nullish (opt_prop raw ''directory'')
            \<and> process_cwd = Inl e \<longrightarrow>
            normalizeInput process_cwd raw = Inl e"
    by (simp add: normalizeInput_defined [OF assms])
  have fields: "\<forall>n. normalizeInput process_cwd raw = Inr n \<longrightarrow>
          hook_platform n = ''opencode''
        \<and> hook_transcriptPath n = JUndefined
        \<and> hook_sessionId n =
            (if nullish (opt_prop raw ''sessionId'') then JStr ''unknown''
             else opt_prop raw ''sessionId'')
        \<and> (\<not> nullish (opt_prop raw ''cwd'') \<longrightarrow> hook_cwd n = opt_prop raw ''cwd'')
        \<and> (nullish (opt_prop raw ''cwd'') \<and> \<not> nullish (opt_prop raw ''directory'') \<longrightarrow>
              hook_cwd n = opt_prop raw ''directory'')
        \<and> (nullish (opt_prop raw ''cwd'') \<and> nullish (opt_prop raw ''directory'') \<longrightarrow>
              (\<exists>d. process_cwd = Inr d \<and> hook_cwd n = JString d))
        \<and> hook_prompt n = opt_prop raw ''prompt''
        \<and> hook_toolName n = opt_prop raw ''toolName''
        \<and> hook_toolInput n = opt_prop raw ''toolInput''
        \<and> hook_toolResponse n =
            (if nullish (opt_prop raw ''toolOutput'') then opt_prop raw ''toolResponse''
             else opt_prop raw ''toolOutput'')"
    by (cases process_cwd) (auto simp: normalizeInput_defined [OF assms] coalesce_def)
  have empty: "\<forall>d. raw = JObj [] \<and> process_cwd = Inr d \<longrightarrow>
          normalizeInput process_cwd raw =
            Inr \<lparr>hook_sessionId = JStr ''unknown'', hook_cwd = JString d,
                 hook_platform = ''opencode'', hook_prompt = JUndefined,
                 hook_toolName = JUndefined, hook_toolInput = JUndefined,
                 hook_toolResponse = JUndefined, hook_transcriptPath = JUndefined\<rparr>"
    by (simp add: normalizeInput_def coalesce_def nullish_def)
  from returns throws fields empty show ?thesis by blast
qed

theorem normalizeInput_on_objects_witness:
  "\<not> nullish (JObj [])
   \<and> normalizeInput (Inr (ustr ''/srv/app'')) (JObj []) =
       Inr \<lparr>hook_sessionId = JStr ''unknown'', hook_cwd = JStr ''/srv/app'',
            hook_platform = ''opencode'', hook_prompt = JUndefined, hook_toolName = JUndefined,
            hook_toolInput = JUndefined, hook_toolResponse = JUndefined,
            hook_transcriptPath = JUndefined\<rparr>
   \<and> nullish (opt_prop (JObj []) ''cwd'')
   \<and> nullish (opt_prop (JObj []) ''directory'')
   \<and> normalizeInput (Inl (SystemError ''ENOENT: no such file or directory, uv_cwd'')) (JObj [])
       = Inl (SystemError ''ENOENT: no such file or directory, uv_cwd'')
   \<and> \<not> nullish (opt_prop (JObj [(''cwd'', JStr ''/work/demo'')]) ''cwd'')
   \<and> (\<exists>n. normalizeInput (Inl (SystemError ''ENOENT: no such file or directory, uv_cwd''))
              (JObj [(''cwd'', JStr ''/work/demo'')]) = Inr n
         \<and> hook_cwd n = JStr ''/work/demo'')"
proof -
  let ?gone = "Inl (SystemError ''ENOENT: no such file or directory, uv_cwd'') :: thrown + jstring"
  let ?with_cwd = "JObj [(''cwd'', JStr ''/work/demo'')]"
  have obj: "\<not> nullish (JObj [])" "\<not> nullish ?with_cwd"
    by (simp_all add: nullish_def)
  have absent: "nullish (opt_prop (JObj []) ''cwd'')" "nullish (opt_prop (JObj []) ''directory'')"
    by (simp_all add: nullish_def opt_prop_def)
  have given: "\<not> nullish (opt_prop ?with_cwd ''cwd'')"
    "opt_prop ?with_cwd ''cwd'' = JStr ''/work/demo''"
    by (simp_all add: nullish_def opt_prop_def)
  note empty_ok = normalizeInput_on_objects [OF obj(1), of "Inr (ustr ''/srv/app'')"]
  note empty_gone = normalizeInput_on_objects [OF obj(1), of ?gone]
  note cwd_gone = normalizeInput_on_objects [OF obj(2), of ?gone]
  from empty_ok have a: "normalizeInput (Inr (ustr ''/srv/app'')) (JObj []) =
       Inr \<lparr>hook_sessionId = JStr ''unknown'', hook_cwd = JStr ''/srv/app'',
            hook_platform = ''opencode'', hook_prompt = JUndefined, hook_toolName = JUndefined,
            hook_toolInput = JUndefined, hook_toolResponse = JUndefined,
            hook_transcriptPath = JUndefined\<rparr>"
    by (elim conjE) simp
  from empty_gone absent
  have b: "normalizeInput ?gone (JObj [])
       = Inl (SystemError ''ENOENT: no such file or directory, uv_cwd'')"
    by (elim conjE) simp
  from cwd_gone given(1)
  obtain n where n: "normalizeInput ?gone ?with_cwd = Inr n"
    by (elim conjE) blast
  with cwd_gone given have "hook_cwd n = JStr ''/work/demo''"
    by (elim conjE) simp
  with n have c: "\<exists>n. normalizeInput ?gone ?with_cwd = Inr n \<and> hook_cwd n = JStr ''/work/demo''"
    by blast
  from obj(1) a absent b given(1) c show ?thesis by blast
qed

text \<open>
  C3 as stated fails: on null and on undefined the first property read throws a
  TypeError; on the empty payload \<open>process.cwd()\<close> is called and what it throws is not
  caught; and on a payload with a \<open>directory\<close> and a null \<open>prompt\<close> the result's \<open>cwd\<close> is that
  directory, not the working directory of the process, and its \<open>prompt\<close> is null.
\<close>

theorem normalizeInput_counterexample:
  "normalizeInput (Inr (ustr ''/srv/app'')) JNull
     = Inl (TypeError ''Cannot read properties of null (reading sessionId)'')
   \<and> normalizeInput (Inr (ustr ''/srv/app'')) JUndefined
     = Inl (TypeError ''Cannot read properties of undefined (reading sessionId)'')
   \<and> normalizeInput (Inl (SystemError ''ENOENT: no such file or directory, uv_cwd'')) (JObj [])
     = Inl (SystemError ''ENOENT: no such file or directory, uv_cwd'')
   \<and> normalizeInput (Inr (ustr ''/srv/app''))
        (JObj [(''directory'', JStr ''/work/demo''), (''prompt'', JNull)])
     = Inr \<lparr>hook_sessionId = JStr ''unknown'', hook_cwd = JStr ''/work/demo'',
            hook_platform = ''opencode'', hook_prompt = JNull, hook_toolName = JUndefined,
            hook_toolInput = JUndefined, hook_toolResponse = JUndefined,
            hook_transcriptPath = JUndefined\<rparr>"
  by (simp add: normalizeInput_def coalesce_def nullish_def)









lemma filter_assistant_defined:
  "\<forall>x\<in>set ms. \<not> nullish x \<Longrightarrow>
   filter_assistant ms = Inr (filter (\<lambda>m. opt_prop m ''role'' = JStr ''assistant'') ms)"
  by (induction ms) (simp_all add: js_prop_opt_prop and_then_def)

lemma lastAssistantMessage_defined:
  assumes "js_prop input ''messages'' = Inr (JArr ms)" and "\<forall>x\<in>set ms. \<not> nullish x"
  shows "lastAssistantMessage input =
     Inr (coalesce (opt_prop (array_pop (filter (\<lambda>m. opt_prop m ''role'' = JStr ''assistant'') ms)) ''content'')
            (JStr ''''))"
  using assms
  by (simp add: lastAssistantMessage_def and_then_def coalesce_def nullish_def
        messages_filter_assistant_def filter_assistant_defined)

lemma array_pop_last_match:
  assumes "P m" and "\<forall>x\<in>set post. \<not> P x"
  shows "array_pop (filter P (pre @ m # post)) = m"
proof -
  from assms(2) have "filter P post = []" by (simp add: filter_empty_conv)
  with assms(1) show ?thesis by (simp add: array_pop_def)
qed

lemma array_pop_no_match: "\<forall>x\<in>set ms. \<not> P x \<Longrightarrow> array_pop (filter P ms) = JUndefined"
  by (simp add: array_pop_def filter_empty_conv)

text \<open>
  C5. For an initialized session whose liveness probe passes and an input whose
  \<open>messages\<close> is an array of values other than undefined and null, the compaction hook
  issues, after the probe, one POST to sessions/summarize whose body has two properties:
  \<open>contentSessionId\<close> and \<open>last_assistant_message\<close>. The latter is the \<open>content\<close> of the
  message with role 'assistant' that has no message with that role after it (the empty
  string when that content is undefined or null, and when no message has that role). For
  the list user, assistant "A", user, assistant "B" it is "B".
\<close>

theorem compacting_forwards_last_assistant:
  assumes "sessionInitialized st" and "ensureWorker probe = Inr True"
    and "js_prop input ''messages'' = Inr (JArr ms)" and "\<forall>x\<in>set ms. \<not> nullish x"
  shows "\<exists>v. sent (session_compacting ctx st input probe reply)
          = [readiness_request, summarize_request ctx v]
    \<and> meth (summarize_request ctx v) = POST
    \<and> path (summarize_request ctx v) = ''/api/sessions/summarize''
    \<and> body (summarize_request ctx v)
        = Some (JObj [(''contentSessionId'', JStr (sessionId ctx)), (''last_assistant_message'', v)])
    \<and> (\<forall>pre m post.
          ms = pre @ m # post \<and> opt_prop m ''role'' = JStr ''assistant''
          \<and> (\<forall>x\<in>set post. opt_prop x ''role'' \<noteq> JStr ''assistant'') \<longrightarrow>
          v = (if nullish (opt_prop m ''content'') then JStr '''' else opt_prop m ''content''))
    \<and> ((\<forall>x\<in>set ms. opt_prop x ''role'' \<noteq> JStr ''assistant'') \<longrightarrow> v = JStr '''')"
proof -
  let ?P = "\<lambda>m. opt_prop m ''role'' = JStr ''assistant''"
  let ?v = "coalesce (opt_prop (array_pop (filter ?P ms)) ''content'') (JStr '''')"
  have sent: "sent (session_compacting ctx st input probe reply)
          = [readiness_request, summarize_request ctx ?v]"
    using assms(1,2)
    by (simp add: session_compacting_def session_compacting_try_def
          lastAssistantMessage_defined [OF assms(3,4)] resolved_def caught_def
          ensureWorker_requests_def split: sum.splits)
  have last: "\<forall>pre m post.
          ms = pre @ m # post \<and> opt_prop m ''role'' = JStr ''assistant''
          \<and> (\<forall>x\<in>set post. opt_prop x ''role'' \<noteq> JStr ''assistant'') \<longrightarrow>
          ?v = (if nullish (opt_prop m ''content'') then JStr '''' else opt_prop m ''content'')"
  proof (intro allI impI)
    fix pre m post
    assume h: "ms = pre @ m # post \<and> opt_prop m ''role'' = JStr ''assistant''
          \<and> (\<forall>x\<in>set post. opt_prop x ''role'' \<noteq> JStr ''assistant'')"
    then have "array_pop (filter ?P ms) = m"
      using array_pop_last_match [of ?P m post pre] by simp
    then show "?v = (if nullish (opt_prop m ''content'') then JStr '''' else opt_prop m ''content'')"
      by (simp add: coalesce_def)
  qed
  have none: "(\<forall>x\<in>set ms. opt_prop x ''role'' \<noteq> JStr ''assistant'') \<longrightarrow> ?v = JStr ''''"
    using array_pop_no_match [of ms ?P]
    by (auto simp: coalesce_def nullish_def opt_prop_def)
  show ?thesis
    using sent last none
    by (intro exI [of _ ?v]) (simp add: summarize_request_def post_json_def)
qed

lemma example_messages_split:
  "example_messages =
     [JObj [(''role'', JStr ''user''), (''content'', JStr ''fix the parser'')],
      JObj [(''role'', JStr ''assistant''), (''content'', JStr ''A'')],
      JObj [(''role'', JStr ''user''), (''content'', JStr ''now the tests'')]]
     @ JObj [(''role'', JStr ''assistant''), (''content'', JStr ''B'')] # []"
  by (simp add: example_messages_def)

theorem compacting_forwards_last_assistant_witness:
  "sessionInitialized initialized_session
   \<and> ensureWorker (Responded ok_response) = Inr True
   \<and> js_prop example_compacting_input ''messages'' = Inr (JArr example_messages)
   \<and> sent (session_compacting example_ctx initialized_session example_compacting_input
        (Responded ok_response) (Responded ok_response))
      = [readiness_request, summarize_request example_ctx (JStr ''B'')]"
proof -
  have init: "sessionInitialized initialized_session" by (simp add: initialized_session_def)
  have msgs: "js_prop example_compacting_input ''messages'' = Inr (JArr example_messages)"
    by (simp add: example_compacting_input_def)
  have defined: "\<forall>x\<in>set example_messages. \<not> nullish x"
    by (simp add: example_messages_def nullish_def)
  from compacting_forwards_last_assistant [OF init ensureWorker_ok_response msgs defined,
         of example_ctx "Responded ok_response"]
  obtain v where sent: "sent (session_compacting example_ctx initialized_session example_compacting_input
        (Responded ok_response) (Responded ok_response))
      = [readiness_request, summarize_request example_ctx v]"
    and last: "\<forall>pre m post.
          example_messages = pre @ m # post \<and> opt_prop m ''role'' = JStr ''assistant''
          \<and> (\<forall>x\<in>set post. opt_prop x ''role'' \<noteq> JStr ''assistant'') \<longrightarrow>
          v = (if nullish (opt_prop m ''content'') then JStr '''' else opt_prop m ''content'')"
    by blast
  let ?m = "JObj [(''role'', JStr ''assistant''), (''content'', JStr ''B'')]"
  from last example_messages_split
  have "opt_prop ?m ''role'' = JStr ''assistant'' \<longrightarrow>
        v = (if nullish (opt_prop ?m ''content'') then JStr '''' else opt_prop ?m ''content'')"
    by (metis empty_iff empty_set)
  then have "v = JStr ''B''"
    by (simp add: opt_prop_def nullish_def)
  with sent init msgs show ?thesis by (simp add: ensureWorker_ok_response)
qed

end
